theory Spec2Isabelle
  imports Main "HOL-Library.Word"
begin

unbundle bit_operations_syntax

section \<open>The RMT backend of the LED strip driver\<close>

text \<open>
  A shallow embedding of \<^verbatim>\<open>main/vendor/led/led_strip_rmt_dev.c\<close>. The five
  operations of the device (\<^verbatim>\<open>set_pixel\<close>, \<^verbatim>\<open>set_pixel_rgbw\<close>, \<^verbatim>\<open>refresh\<close>,
  \<^verbatim>\<open>clear\<close>, \<^verbatim>\<open>del\<close>) and its constructor are translated one by one.
  The pixel buffer lives in a byte-addressed store, so that a store through
  \<^verbatim>\<open>pixel_buf + start\<close> lands where the address arithmetic puts it, inside the
  buffer or not. The calls into the RMT driver and the allocator are logged, in order,
  with the value each one returned; what they return is decided by an environment
  the operations are parameterised over.
\<close>

subsection \<open>Machine types and error codes\<close>

type_synonym u8 = "8 word"
type_synonym u32 = "32 word"

text \<open>Pointers and \<^verbatim>\<open>size_t\<close> are 32 bits wide on every target of the driver;
  the null pointer is 0.\<close>

type_synonym addr = "32 word"

text \<open>\<^verbatim>\<open>esp_err_t\<close> is a C \<^verbatim>\<open>int\<close>; the three codes the file names have the
  values of ESP-IDF's \<^verbatim>\<open>esp_err.h\<close>. Every other value is an error of the driver.\<close>

type_synonym esp_err_t = int

definition ESP_OK :: esp_err_t where
  "ESP_OK = 0"


definition ESP_ERR_INVALID_ARG :: esp_err_t where
  "ESP_ERR_INVALID_ARG = 0x102"

subsection \<open>Pixel formats\<close>

text \<open>The four enumerators the file uses; \<open>LED_PIXEL_FORMAT_other\<close> stands for a
  value of the C enum type that is none of them.\<close>

datatype led_pixel_format_t =
    LED_PIXEL_FORMAT_GRB
  | LED_PIXEL_FORMAT_GRBW
  | LED_PIXEL_FORMAT_RGB
  | LED_PIXEL_FORMAT_INVALID
  | LED_PIXEL_FORMAT_other nat


subsection \<open>The device object\<close>

text \<open>\<^verbatim>\<open>led_strip_rmt_obj\<close>. Of \<^verbatim>\<open>base\<close> only the pixel format is data (the rest
  is the table of operations). \<open>pixel_buf\<close> is the address of the trailing array and
  \<open>obj_addr\<close> the address of the object itself, the pointer \<^verbatim>\<open>free\<close> receives.
  The fields are values of the record, held apart from the byte store the buffer
  lives in. In the C object \<open>strip_len\<close> and \<open>bytes_per_pixel\<close> lie directly below
  \<open>pixel_buf\<close>; a store that lands below the buffer and overwrites them is not
  followed into later operations here.\<close>

record led_strip_rmt_obj =
  led_pixel_format :: led_pixel_format_t
  rmt_chan :: addr
  strip_encoder :: addr
  strip_len :: u32
  bytes_per_pixel :: u8
  pixel_buf :: addr
  obj_addr :: addr

subsection \<open>Configuration\<close>



record rmt_tx_channel_config_t =
  chan_clk_src :: nat
  chan_gpio_num :: int
  chan_mem_block_symbols :: u32
  chan_resolution_hz :: u32
  chan_trans_queue_depth :: u32
  chan_with_dma :: bool
  chan_invert_out :: bool

record led_strip_encoder_config_t =
  enc_resolution :: u32
  enc_led_model :: nat




subsection \<open>The driver, the allocator and the log of their calls\<close>

text \<open>One event per call made into the RMT driver or the allocator, holding the
  arguments and what the call returned. A transmission records the bytes it was handed
  (the contents of the payload at the time of the call), their count and the loop
  count of its configuration; a wait records its timeout.\<close>

datatype rmt_event =
    Ev_calloc u32 u32 addr
  | Ev_free addr
  | Ev_rmt_new_tx_channel rmt_tx_channel_config_t esp_err_t addr
  | Ev_rmt_new_led_strip_encoder led_strip_encoder_config_t esp_err_t addr
  | Ev_rmt_del_channel addr esp_err_t
  | Ev_rmt_del_encoder addr esp_err_t
  | Ev_rmt_enable addr esp_err_t
  | Ev_rmt_transmit addr addr "u8 list" u32 int esp_err_t
  | Ev_rmt_tx_wait_all_done addr int esp_err_t
  | Ev_rmt_disable addr esp_err_t

text \<open>The environment: what each external function returns, given the events so far
  and its arguments, and the constants of the build. The two constructors of the driver
  return an error code and the handle they leave in their out-parameter (0 when they
  leave it null). Every call is taken to return; a wait that blocks for ever is outside
  the model. The driver does not write to the byte store: \<^verbatim>\<open>rmt_transmit\<close> takes its
  payload as a pointer to constant data.\<close>

record environment =
  calloc :: "rmt_event list \<Rightarrow> u32 \<Rightarrow> u32 \<Rightarrow> addr"
  rmt_new_tx_channel :: "rmt_event list \<Rightarrow> rmt_tx_channel_config_t \<Rightarrow> esp_err_t \<times> addr"
  rmt_new_led_strip_encoder :: "rmt_event list \<Rightarrow> led_strip_encoder_config_t \<Rightarrow> esp_err_t \<times> addr"
  rmt_del_channel :: "rmt_event list \<Rightarrow> addr \<Rightarrow> esp_err_t"
  rmt_del_encoder :: "rmt_event list \<Rightarrow> addr \<Rightarrow> esp_err_t"
  rmt_enable :: "rmt_event list \<Rightarrow> addr \<Rightarrow> esp_err_t"
  rmt_transmit :: "rmt_event list \<Rightarrow> addr \<Rightarrow> addr \<Rightarrow> u8 list \<Rightarrow> u32 \<Rightarrow> int \<Rightarrow> esp_err_t"
  rmt_tx_wait_all_done :: "rmt_event list \<Rightarrow> addr \<Rightarrow> int \<Rightarrow> esp_err_t"
  rmt_disable :: "rmt_event list \<Rightarrow> addr \<Rightarrow> esp_err_t"
  RMT_CLK_SRC_DEFAULT :: nat
  target_esp32_or_s2 :: bool
  sizeof_led_strip_rmt_obj :: u32
  offsetof_pixel_buf :: u32

text \<open>The state the operations act on: the byte store and the log.\<close>

record state =
  mem :: "addr \<Rightarrow> u8"
  trace :: "rmt_event list"

definition log_event :: "rmt_event \<Rightarrow> state \<Rightarrow> state" where
  "log_event ev s = s\<lparr>trace := trace s @ [ev]\<rparr>"

definition do_rmt_enable :: "environment \<Rightarrow> addr \<Rightarrow> state \<Rightarrow> esp_err_t \<times> state" where
  "do_rmt_enable env chan s =
     (let r = rmt_enable env (trace s) chan in (r, log_event (Ev_rmt_enable chan r) s))"

definition do_rmt_disable :: "environment \<Rightarrow> addr \<Rightarrow> state \<Rightarrow> esp_err_t \<times> state" where
  "do_rmt_disable env chan s =
     (let r = rmt_disable env (trace s) chan in (r, log_event (Ev_rmt_disable chan r) s))"

definition do_rmt_tx_wait_all_done ::
  "environment \<Rightarrow> addr \<Rightarrow> int \<Rightarrow> state \<Rightarrow> esp_err_t \<times> state" where
  "do_rmt_tx_wait_all_done env chan timeout_ms s =
     (let r = rmt_tx_wait_all_done env (trace s) chan timeout_ms
      in (r, log_event (Ev_rmt_tx_wait_all_done chan timeout_ms r) s))"

definition do_rmt_del_channel :: "environment \<Rightarrow> addr \<Rightarrow> state \<Rightarrow> esp_err_t \<times> state" where
  "do_rmt_del_channel env chan s =
     (let r = rmt_del_channel env (trace s) chan in (r, log_event (Ev_rmt_del_channel chan r) s))"

definition do_rmt_del_encoder :: "environment \<Rightarrow> addr \<Rightarrow> state \<Rightarrow> esp_err_t \<times> state" where
  "do_rmt_del_encoder env enc s =
     (let r = rmt_del_encoder env (trace s) enc in (r, log_event (Ev_rmt_del_encoder enc r) s))"

definition do_free :: "addr \<Rightarrow> state \<Rightarrow> state" where
  "do_free p s = log_event (Ev_free p) s"

subsection \<open>Bytes in the store\<close>

text \<open>The \<open>n\<close> bytes at \<open>p\<close>, \<open>p + 1\<close>, ... (address arithmetic in 32 bits).\<close>

definition read_bytes :: "(addr \<Rightarrow> u8) \<Rightarrow> addr \<Rightarrow> nat \<Rightarrow> u8 list" where
  "read_bytes m p n = map (\<lambda>k. m (p + of_nat k)) [0..<n]"

primrec memset :: "(addr \<Rightarrow> u8) \<Rightarrow> addr \<Rightarrow> u8 \<Rightarrow> nat \<Rightarrow> (addr \<Rightarrow> u8)" where
  "memset m p c 0 = m"
| "memset m p c (Suc n) = (memset m p c n)(p + of_nat n := c)"

text \<open>A transmission reads its payload from the store when it is submitted.\<close>

definition do_rmt_transmit ::
  "environment \<Rightarrow> addr \<Rightarrow> addr \<Rightarrow> addr \<Rightarrow> u32 \<Rightarrow> int \<Rightarrow> state \<Rightarrow> esp_err_t \<times> state" where
  "do_rmt_transmit env chan enc payload payload_bytes loop_count s =
     (let bytes = read_bytes (mem s) payload (unat payload_bytes);
          r = rmt_transmit env (trace s) chan enc bytes payload_bytes loop_count
      in (r, log_event (Ev_rmt_transmit chan enc bytes payload_bytes loop_count r) s))"




subsection \<open>Writing pixels\<close>

text \<open>\<^verbatim>\<open>led_strip_rmt_set_pixel\<close>: \<open>start\<close> is a \<^verbatim>\<open>uint32_t\<close> product and wraps;
  the index is compared with nothing. Each channel is masked with \<open>0xFF\<close> and stored
  as a byte.\<close>

definition led_strip_rmt_set_pixel ::
  "led_strip_rmt_obj \<Rightarrow> u32 \<Rightarrow> u32 \<Rightarrow> u32 \<Rightarrow> u32 \<Rightarrow> state \<Rightarrow> esp_err_t \<times> state" where
  "led_strip_rmt_set_pixel strip index red green blue s =
     (let start = index * ucast (bytes_per_pixel strip);
          pb = pixel_buf strip + start
      in case led_pixel_format strip of
           LED_PIXEL_FORMAT_RGB \<Rightarrow>
             (ESP_OK, s\<lparr>mem := (mem s)
                (pb := ucast (red AND 0xFF),
                 pb + 1 := ucast (green AND 0xFF),
                 pb + 2 := ucast (blue AND 0xFF))\<rparr>)
         | LED_PIXEL_FORMAT_GRB \<Rightarrow>
             (ESP_OK, s\<lparr>mem := (mem s)
                (pb := ucast (green AND 0xFF),
                 pb + 1 := ucast (red AND 0xFF),
                 pb + 2 := ucast (blue AND 0xFF))\<rparr>)
         | _ \<Rightarrow> (ESP_ERR_INVALID_ARG, s))"

text \<open>\<^verbatim>\<open>led_strip_rmt_set_pixel_rgbw\<close>: the two guards, then four stores in the
  order G, R, B, W from \<^verbatim>\<open>pixel_buf + index * 4\<close>.\<close>

definition led_strip_rmt_set_pixel_rgbw ::
  "led_strip_rmt_obj \<Rightarrow> u32 \<Rightarrow> u32 \<Rightarrow> u32 \<Rightarrow> u32 \<Rightarrow> u32 \<Rightarrow> state \<Rightarrow> esp_err_t \<times> state" where
  "led_strip_rmt_set_pixel_rgbw strip index red green blue white s =
     (if \<not> index < strip_len strip then (ESP_ERR_INVALID_ARG, s)
      else if bytes_per_pixel strip \<noteq> 4 then (ESP_ERR_INVALID_ARG, s)
      else
        let buf_start = pixel_buf strip + index * 4
        in (ESP_OK, s\<lparr>mem := (mem s)
              (buf_start := ucast (green AND 0xFF),
               buf_start + 1 := ucast (red AND 0xFF),
               buf_start + 2 := ucast (blue AND 0xFF),
               buf_start + 3 := ucast (white AND 0xFF))\<rparr>))"



subsection \<open>Transmitting\<close>

text \<open>The number of bytes of the buffer as the file computes it everywhere: the
  \<^verbatim>\<open>uint32_t\<close> product \<^verbatim>\<open>strip_len * bytes_per_pixel\<close>.\<close>

definition buffer_bytes :: "led_strip_rmt_obj \<Rightarrow> u32" where
  "buffer_bytes strip = strip_len strip * ucast (bytes_per_pixel strip)"

text \<open>\<^verbatim>\<open>led_strip_rmt_refresh\<close>: \<open>loop_count\<close> is 0 and the wait's timeout is -1.\<close>

definition led_strip_rmt_refresh ::
  "environment \<Rightarrow> led_strip_rmt_obj \<Rightarrow> state \<Rightarrow> esp_err_t \<times> state" where
  "led_strip_rmt_refresh env strip s =
     (let (err, s1) = do_rmt_enable env (rmt_chan strip) s in
      if err \<noteq> ESP_OK then (err, s1)
      else
        let (err, s2) = do_rmt_transmit env (rmt_chan strip) (strip_encoder strip)
                          (pixel_buf strip) (buffer_bytes strip) 0 s1 in
        if err \<noteq> ESP_OK then (err, snd (do_rmt_disable env (rmt_chan strip) s2))
        else
          let (err, s3) = do_rmt_tx_wait_all_done env (rmt_chan strip) (- 1) s2 in
          if err \<noteq> ESP_OK then (err, snd (do_rmt_disable env (rmt_chan strip) s3))
          else
            let (err, s4) = do_rmt_disable env (rmt_chan strip) s3 in
            if err \<noteq> ESP_OK then (err, s4) else (ESP_OK, s4))"

text \<open>\<^verbatim>\<open>led_strip_rmt_clear\<close>: \<^verbatim>\<open>memset\<close> of the buffer, then a refresh.\<close>

definition led_strip_rmt_clear ::
  "environment \<Rightarrow> led_strip_rmt_obj \<Rightarrow> state \<Rightarrow> esp_err_t \<times> state" where
  "led_strip_rmt_clear env strip s =
     led_strip_rmt_refresh env strip
       (s\<lparr>mem := memset (mem s) (pixel_buf strip) 0 (unat (buffer_bytes strip))\<rparr>)"

subsection \<open>Destroying and creating\<close>

text \<open>\<^verbatim>\<open>led_strip_rmt_del\<close>: each \<^verbatim>\<open>ESP_RETURN_ON_ERROR\<close> returns the code of a
  failed release at once.\<close>

definition led_strip_rmt_del ::
  "environment \<Rightarrow> led_strip_rmt_obj \<Rightarrow> state \<Rightarrow> esp_err_t \<times> state" where
  "led_strip_rmt_del env strip s =
     (let (err1, s1) = do_rmt_del_channel env (rmt_chan strip) s in
      if err1 \<noteq> ESP_OK then (err1, s1)
      else
        let (err2, s2) = do_rmt_del_encoder env (strip_encoder strip) s1 in
        if err2 \<noteq> ESP_OK then (err2, s2)
        else (ESP_OK, do_free (obj_addr strip) s2))"







subsection \<open>Resources held\<close>




text \<open>The events an operation added to the log.\<close>

definition new_events :: "state \<Rightarrow> state \<Rightarrow> rmt_event list" where
  "new_events s s' = drop (length (trace s)) (trace s')"


subsection \<open>Reading the log\<close>

fun is_rmt_enable :: "rmt_event \<Rightarrow> bool" where
  "is_rmt_enable (Ev_rmt_enable h r) = True"
| "is_rmt_enable ev = False"

fun is_rmt_disable :: "rmt_event \<Rightarrow> bool" where
  "is_rmt_disable (Ev_rmt_disable h r) = True"
| "is_rmt_disable ev = False"

text \<open>The byte sequences submitted for transmission, in order.\<close>

fun transmit_payload :: "rmt_event \<Rightarrow> u8 list option" where
  "transmit_payload (Ev_rmt_transmit h e bs n l r) = Some bs"
| "transmit_payload ev = None"

definition transmitted :: "rmt_event list \<Rightarrow> u8 list list" where
  "transmitted evs = List.map_filter transmit_payload evs"

subsection \<open>Stores into the byte store\<close>

text \<open>\<open>stores_exactly s s' p bs\<close>: the state \<open>s'\<close> is \<open>s\<close> with the bytes \<open>bs\<close> stored
  from address \<open>p\<close> on and nothing else touched, neither another byte nor the log.\<close>

definition stores_exactly :: "state \<Rightarrow> state \<Rightarrow> addr \<Rightarrow> u8 list \<Rightarrow> bool" where
  "stores_exactly s s' p bs \<longleftrightarrow>
     read_bytes (mem s') p (length bs) = bs
     \<and> (\<forall>a. length bs \<le> unat (a - p) \<longrightarrow> mem s' a = mem s a)
     \<and> trace s' = trace s"

text \<open>The address of the byte at offset \<open>off\<close> of the pixel buffer.\<close>

definition buffer_addr :: "led_strip_rmt_obj \<Rightarrow> nat \<Rightarrow> addr" where
  "buffer_addr strip off = pixel_buf strip + of_nat off"

subsection \<open>Sample devices and environments\<close>

text \<open>A strip of \<open>n\<close> pixels in format \<open>fmt\<close>, as the constructor lays it out, and a
  state with a zeroed store and an empty log.\<close>

definition sample_strip :: "led_pixel_format_t \<Rightarrow> u32 \<Rightarrow> led_strip_rmt_obj" where
  "sample_strip fmt n =
     \<lparr>led_pixel_format = fmt,
      rmt_chan = 0x3FFC1000,
      strip_encoder = 0x3FFC2000,
      strip_len = n,
      bytes_per_pixel = (if fmt = LED_PIXEL_FORMAT_GRBW then 4 else 3),
      pixel_buf = 0x3FFB0025,
      obj_addr = 0x3FFB0000\<rparr>"




definition blank_state :: state where
  "blank_state = \<lparr>mem = (\<lambda>a. 0), trace = []\<rparr>"

text \<open>An environment that answers the \<open>k\<close>-th call of a log with the \<open>k\<close>-th code of
  a script, and with \<open>ESP_OK\<close> once the script is used up. An allocation or a
  construction that is answered \<open>ESP_OK\<close> yields a fixed non-null address.\<close>

definition script_code :: "esp_err_t list \<Rightarrow> rmt_event list \<Rightarrow> esp_err_t" where
  "script_code codes evs = (if length evs < length codes then codes ! length evs else ESP_OK)"

definition scripted_env :: "esp_err_t list \<Rightarrow> environment" where
  "scripted_env codes =
     \<lparr>calloc = (\<lambda>evs n sz. if script_code codes evs = ESP_OK then 0x3FFB0000 else 0),
      rmt_new_tx_channel =
        (\<lambda>evs cfg. (script_code codes evs, if script_code codes evs = ESP_OK then 0x3FFC1000 else 0)),
      rmt_new_led_strip_encoder =
        (\<lambda>evs cfg. (script_code codes evs, if script_code codes evs = ESP_OK then 0x3FFC2000 else 0)),
      rmt_del_channel = (\<lambda>evs h. script_code codes evs),
      rmt_del_encoder = (\<lambda>evs h. script_code codes evs),
      rmt_enable = (\<lambda>evs h. script_code codes evs),
      rmt_transmit = (\<lambda>evs h e bs n l. script_code codes evs),
      rmt_tx_wait_all_done = (\<lambda>evs h t. script_code codes evs),
      rmt_disable = (\<lambda>evs h. script_code codes evs),
      RMT_CLK_SRC_DEFAULT = 4,
      target_esp32_or_s2 = True,
      sizeof_led_strip_rmt_obj = 40,
      offsetof_pixel_buf = 37\<rparr>"


section \<open>Properties\<close>

subsection \<open>Bytes and addresses\<close>

lemma byte_mask: "(0xFF :: u32) = mask 8"
  by (simp add: mask_eq_exp_minus_1)

lemma ucast_mask_byte: "(ucast (x AND 0xFF :: u32) :: u8) = ucast x"
  unfolding byte_mask by (rule bit_word_eqI) (simp add: bit_simps)

lemma unat_ucast_byte: "unat (ucast (x :: u32) :: u8) = unat x mod 256"
  by (simp add: unsigned_ucast_eq take_bit_eq_mod)

lemma read_bytes_0: "read_bytes m p 0 = []"
  by (simp add: read_bytes_def)

lemma read_bytes_Suc: "read_bytes m p (Suc n) = read_bytes m p n @ [m (p + of_nat n)]"
  by (simp add: read_bytes_def)

lemmas read_bytes_simps = read_bytes_0 read_bytes_Suc

lemma read_bytes_3: "read_bytes m a 3 = [m a, m (a + 1), m (a + 2)]"
  by (simp add: numeral_3_eq_3 read_bytes_simps)

lemma read_bytes_4: "read_bytes m a 4 = [m a, m (a + 1), m (a + 2), m (a + 3)]"
proof -
  have "(4 :: nat) = Suc (Suc (Suc (Suc 0)))" by simp
  then show ?thesis by (simp only: read_bytes_simps) simp
qed

lemma far_from_start:
  fixes a p :: addr
  assumes "n \<le> unat (a - p)" "k < n" "k < 2 ^ 32"
  shows "a \<noteq> p + of_nat k"
proof
  assume "a = p + of_nat k"
  then have "a - p = of_nat k" by simp
  then have "unat (a - p) = k" using assms(3) by (simp add: unat_of_nat)
  with assms show False by simp
qed

lemma stores_exactly_3:
  "stores_exactly s (s\<lparr>mem := (mem s)(p := b0, p + 1 := b1, p + 2 := b2)\<rparr>) p [b0, b1, b2]"
  using far_from_start [of 3 _ p 0] far_from_start [of 3 _ p 1] far_from_start [of 3 _ p 2]
  by (auto simp add: stores_exactly_def read_bytes_simps)

lemma stores_exactly_4:
  "stores_exactly s (s\<lparr>mem := (mem s)(p := b0, p + 1 := b1, p + 2 := b2, p + 3 := b3)\<rparr>) p [b0, b1, b2, b3]"
  using far_from_start [of 4 _ p 0] far_from_start [of 4 _ p 1] far_from_start [of 4 _ p 2]
     far_from_start [of 4 _ p 3]
  by (auto simp add: stores_exactly_def read_bytes_simps)

lemma set_pixel_RGB:
  "led_pixel_format strip = LED_PIXEL_FORMAT_RGB \<Longrightarrow>
   led_strip_rmt_set_pixel strip index red green blue s =
     (ESP_OK, s\<lparr>mem := (mem s)
        (buffer_addr strip (unat index * unat (bytes_per_pixel strip)) := ucast red,
         buffer_addr strip (unat index * unat (bytes_per_pixel strip)) + 1 := ucast green,
         buffer_addr strip (unat index * unat (bytes_per_pixel strip)) + 2 := ucast blue)\<rparr>)"
  by (simp add: led_strip_rmt_set_pixel_def buffer_addr_def ucast_mask_byte Let_def)

lemma set_pixel_GRB:
  "led_pixel_format strip = LED_PIXEL_FORMAT_GRB \<Longrightarrow>
   led_strip_rmt_set_pixel strip index red green blue s =
     (ESP_OK, s\<lparr>mem := (mem s)
        (buffer_addr strip (unat index * unat (bytes_per_pixel strip)) := ucast green,
         buffer_addr strip (unat index * unat (bytes_per_pixel strip)) + 1 := ucast red,
         buffer_addr strip (unat index * unat (bytes_per_pixel strip)) + 2 := ucast blue)\<rparr>)"
  by (simp add: led_strip_rmt_set_pixel_def buffer_addr_def ucast_mask_byte Let_def)

lemma set_pixel_unsupported:
  "led_pixel_format strip \<noteq> LED_PIXEL_FORMAT_RGB \<Longrightarrow> led_pixel_format strip \<noteq> LED_PIXEL_FORMAT_GRB \<Longrightarrow>
   led_strip_rmt_set_pixel strip index red green blue s = (ESP_ERR_INVALID_ARG, s)"
  by (cases "led_pixel_format strip") (simp_all add: led_strip_rmt_set_pixel_def Let_def)

lemma set_pixel_rgbw_ok:
  "index < strip_len strip \<Longrightarrow> bytes_per_pixel strip = 4 \<Longrightarrow>
   led_strip_rmt_set_pixel_rgbw strip index red green blue white s =
     (ESP_OK, s\<lparr>mem := (mem s)
        (buffer_addr strip (unat index * unat (bytes_per_pixel strip)) := ucast green,
         buffer_addr strip (unat index * unat (bytes_per_pixel strip)) + 1 := ucast red,
         buffer_addr strip (unat index * unat (bytes_per_pixel strip)) + 2 := ucast blue,
         buffer_addr strip (unat index * unat (bytes_per_pixel strip)) + 3 := ucast white)\<rparr>)"
  by (simp add: led_strip_rmt_set_pixel_rgbw_def buffer_addr_def ucast_mask_byte Let_def)

lemma set_pixel_rgbw_fail:
  "\<not> index < strip_len strip \<or> bytes_per_pixel strip \<noteq> 4 \<Longrightarrow>
   led_strip_rmt_set_pixel_rgbw strip index red green blue white s = (ESP_ERR_INVALID_ARG, s)"
  by (auto simp add: led_strip_rmt_set_pixel_rgbw_def)

subsection \<open>Pixel writes\<close>

text \<open>
  C1. For every device and every index below \<open>strip_len\<close>, \<open>set_pixel\<close> succeeds and
  stores exactly three bytes from buffer offset \<open>index \<times> bytes_per_pixel\<close> on, in the
  wire order of the format: (R, G, B) for RGB and (G, R, B) for GRB; on a device with
  four bytes per pixel \<open>set_pixel_rgbw\<close> stores exactly four bytes there in the order
  (G, R, B, W). Each byte is the low byte of its channel argument, and no other byte of
  the store changes. The witness holds the two scenarios of the specification: on a GRB
  device of ten pixels, \<open>set_pixel(0, 255, 0, 0)\<close> leaves the bytes \<open>[0x00, 0xFF, 0x00]\<close>
  at offsets 0 to 2; on a GRBW device of five pixels, \<open>set_pixel_rgbw(2, 10, 20, 30, 40)\<close>
  leaves \<open>[20, 10, 30, 40]\<close> at offsets 8 to 11.
\<close>

theorem C1_set_pixel_wire_order:
  assumes "index < strip_len strip"
  shows "(led_pixel_format strip = LED_PIXEL_FORMAT_RGB \<longrightarrow>
            fst (led_strip_rmt_set_pixel strip index red green blue s) = ESP_OK \<and>
            stores_exactly s (snd (led_strip_rmt_set_pixel strip index red green blue s))
              (buffer_addr strip (unat index * unat (bytes_per_pixel strip)))
              [ucast red, ucast green, ucast blue])
       \<and> (led_pixel_format strip = LED_PIXEL_FORMAT_GRB \<longrightarrow>
            fst (led_strip_rmt_set_pixel strip index red green blue s) = ESP_OK \<and>
            stores_exactly s (snd (led_strip_rmt_set_pixel strip index red green blue s))
              (buffer_addr strip (unat index * unat (bytes_per_pixel strip)))
              [ucast green, ucast red, ucast blue])
       \<and> (bytes_per_pixel strip = 4 \<longrightarrow>
            fst (led_strip_rmt_set_pixel_rgbw strip index red green blue white s) = ESP_OK \<and>
            stores_exactly s (snd (led_strip_rmt_set_pixel_rgbw strip index red green blue white s))
              (buffer_addr strip (unat index * unat (bytes_per_pixel strip)))
              [ucast green, ucast red, ucast blue, ucast white])"
  using assms
  by (simp add: set_pixel_RGB set_pixel_GRB set_pixel_rgbw_ok stores_exactly_3 stores_exactly_4)

theorem C1_set_pixel_wire_order_witness:
  "(0 :: u32) < strip_len (sample_strip LED_PIXEL_FORMAT_GRB 10)
   \<and> read_bytes
       (mem (snd (led_strip_rmt_set_pixel (sample_strip LED_PIXEL_FORMAT_GRB 10) 0 255 0 0 blank_state)))
       (buffer_addr (sample_strip LED_PIXEL_FORMAT_GRB 10) 0) 3 = [0x00, 0xFF, 0x00]
   \<and> (9 :: u32) < strip_len (sample_strip LED_PIXEL_FORMAT_RGB 10)
   \<and> read_bytes
       (mem (snd (led_strip_rmt_set_pixel (sample_strip LED_PIXEL_FORMAT_RGB 10) 9 1 2 3 blank_state)))
       (buffer_addr (sample_strip LED_PIXEL_FORMAT_RGB 10) 27) 3 = [1, 2, 3]
   \<and> (2 :: u32) < strip_len (sample_strip LED_PIXEL_FORMAT_GRBW 5)
   \<and> read_bytes
       (mem (snd (led_strip_rmt_set_pixel_rgbw (sample_strip LED_PIXEL_FORMAT_GRBW 5) 2 10 20 30 40
                   blank_state)))
       (buffer_addr (sample_strip LED_PIXEL_FORMAT_GRBW 5) 8) 4 = [20, 10, 30, 40]"
proof -
  have h: "(0 :: u32) < strip_len (sample_strip LED_PIXEL_FORMAT_GRB 10)"
    and h': "(9 :: u32) < strip_len (sample_strip LED_PIXEL_FORMAT_RGB 10)"
    and h'': "(2 :: u32) < strip_len (sample_strip LED_PIXEL_FORMAT_GRBW 5)"
    by (simp_all add: sample_strip_def)
  have grb: "read_bytes
       (mem (snd (led_strip_rmt_set_pixel (sample_strip LED_PIXEL_FORMAT_GRB 10) 0 255 0 0 blank_state)))
       (buffer_addr (sample_strip LED_PIXEL_FORMAT_GRB 10) 0) 3 = [0x00, 0xFF, 0x00]"
    using C1_set_pixel_wire_order [OF h, of 255 0 0 blank_state]
    by (simp add: stores_exactly_def sample_strip_def read_bytes_simps read_bytes_3)
  have rgb: "read_bytes
       (mem (snd (led_strip_rmt_set_pixel (sample_strip LED_PIXEL_FORMAT_RGB 10) 9 1 2 3 blank_state)))
       (buffer_addr (sample_strip LED_PIXEL_FORMAT_RGB 10) 27) 3 = [1, 2, 3]"
    using C1_set_pixel_wire_order [OF h', of 1 2 3 blank_state]
    by (simp add: stores_exactly_def sample_strip_def read_bytes_simps read_bytes_3)
  have grbw: "read_bytes
       (mem (snd (led_strip_rmt_set_pixel_rgbw (sample_strip LED_PIXEL_FORMAT_GRBW 5) 2 10 20 30 40
                   blank_state)))
       (buffer_addr (sample_strip LED_PIXEL_FORMAT_GRBW 5) 8) 4 = [20, 10, 30, 40]"
    using C1_set_pixel_wire_order [OF h'', where red = 10 and green = 20 and blue = 30 and white = 40
        and s = blank_state]
    by (simp add: stores_exactly_def sample_strip_def read_bytes_simps read_bytes_4)
  from h h' h'' grb rgb grbw show ?thesis
    by (simp only: simp_thms)
qed








text \<open>
  C4. \<open>set_pixel_rgbw\<close> returns \<open>ESP_ERR_INVALID_ARG\<close> and leaves the state as it was
  whenever \<open>index \<ge> strip_len\<close> or \<open>bytes_per_pixel \<noteq> 4\<close>; when \<open>index < strip_len\<close>
  and \<open>bytes_per_pixel = 4\<close> it succeeds.
\<close>

theorem C4_set_pixel_rgbw_guards:
  "(strip_len strip \<le> index \<or> bytes_per_pixel strip \<noteq> 4 \<longrightarrow>
      led_strip_rmt_set_pixel_rgbw strip index red green blue white s = (ESP_ERR_INVALID_ARG, s))
   \<and> (index < strip_len strip \<and> bytes_per_pixel strip = 4 \<longrightarrow>
      fst (led_strip_rmt_set_pixel_rgbw strip index red green blue white s) = ESP_OK)"
  by (simp add: set_pixel_rgbw_fail set_pixel_rgbw_ok flip: not_less)

theorem C4_set_pixel_rgbw_guards_witness:
  "led_strip_rmt_set_pixel_rgbw (sample_strip LED_PIXEL_FORMAT_GRBW 5) 5 10 20 30 40 blank_state
     = (ESP_ERR_INVALID_ARG, blank_state)
   \<and> led_strip_rmt_set_pixel_rgbw (sample_strip LED_PIXEL_FORMAT_GRB 5) 2 10 20 30 40 blank_state
     = (ESP_ERR_INVALID_ARG, blank_state)
   \<and> fst (led_strip_rmt_set_pixel_rgbw (sample_strip LED_PIXEL_FORMAT_GRBW 5) 2 10 20 30 40 blank_state)
     = ESP_OK"
  using C4_set_pixel_rgbw_guards [of "sample_strip LED_PIXEL_FORMAT_GRBW 5" 5 10 20 30 40 blank_state]
    C4_set_pixel_rgbw_guards [of "sample_strip LED_PIXEL_FORMAT_GRB 5" 2 10 20 30 40 blank_state]
    C4_set_pixel_rgbw_guards [of "sample_strip LED_PIXEL_FORMAT_GRBW 5" 2 10 20 30 40 blank_state]
  by (simp add: sample_strip_def)

text \<open>
  C6. The byte stored for a channel argument of \<open>set_pixel\<close> or \<open>set_pixel_rgbw\<close> is
  the argument modulo 256: a value above 255 is neither clamped nor refused. The
  witness stores red = 300 as the byte 44 (and blue = 511 as 255).
\<close>

theorem C6_channel_truncation:
  "(led_pixel_format strip = LED_PIXEL_FORMAT_RGB \<longrightarrow>
      fst (led_strip_rmt_set_pixel strip index red green blue s) = ESP_OK \<and>
      map unat (read_bytes (mem (snd (led_strip_rmt_set_pixel strip index red green blue s)))
                 (buffer_addr strip (unat index * unat (bytes_per_pixel strip))) 3)
        = [unat red mod 256, unat green mod 256, unat blue mod 256])
   \<and> (led_pixel_format strip = LED_PIXEL_FORMAT_GRB \<longrightarrow>
      fst (led_strip_rmt_set_pixel strip index red green blue s) = ESP_OK \<and>
      map unat (read_bytes (mem (snd (led_strip_rmt_set_pixel strip index red green blue s)))
                 (buffer_addr strip (unat index * unat (bytes_per_pixel strip))) 3)
        = [unat green mod 256, unat red mod 256, unat blue mod 256])
   \<and> (index < strip_len strip \<and> bytes_per_pixel strip = 4 \<longrightarrow>
      fst (led_strip_rmt_set_pixel_rgbw strip index red green blue white s) = ESP_OK \<and>
      map unat (read_bytes (mem (snd (led_strip_rmt_set_pixel_rgbw strip index red green blue white s)))
                 (buffer_addr strip (unat index * unat (bytes_per_pixel strip))) 4)
        = [unat green mod 256, unat red mod 256, unat blue mod 256, unat white mod 256])"
  by (simp add: set_pixel_RGB set_pixel_GRB set_pixel_rgbw_ok read_bytes_3 read_bytes_4
      unat_ucast_byte)

theorem C6_channel_truncation_witness:
  "fst (led_strip_rmt_set_pixel (sample_strip LED_PIXEL_FORMAT_RGB 10) 0 300 0 511 blank_state) = ESP_OK
   \<and> map unat (read_bytes
       (mem (snd (led_strip_rmt_set_pixel (sample_strip LED_PIXEL_FORMAT_RGB 10) 0 300 0 511 blank_state)))
       (buffer_addr (sample_strip LED_PIXEL_FORMAT_RGB 10) 0) 3) = [44, 0, 255]"
proof -
  have rgb: "led_pixel_format (sample_strip LED_PIXEL_FORMAT_RGB 10) = LED_PIXEL_FORMAT_RGB"
    by (simp add: sample_strip_def)
  have args: "unat (0 :: u32) * unat (bytes_per_pixel (sample_strip LED_PIXEL_FORMAT_RGB 10)) = 0"
    "unat (300 :: u32) mod 256 = 44" "unat (0 :: u32) mod 256 = 0" "unat (511 :: u32) mod 256 = 255"
    by simp_all
  from C6_channel_truncation [of "sample_strip LED_PIXEL_FORMAT_RGB 10" 0 300 0 511 blank_state] rgb
  show ?thesis
    by (simp only: args simp_thms)
qed

text \<open>
  C10. The frame of a pixel write, at the inputs where the code leaves it. The strip
  has ten RGB pixels, so its buffer is the 30 bytes at offsets 0 to 29, pixel 0 at
  offsets 0 to 2 and pixel 1 at offsets 3 to 5. For index 1431655766 the product
  \<open>index \<times> bytes_per_pixel\<close> is 4294967298, far outside the buffer, yet \<open>set_pixel\<close>
  succeeds and overwrites the bytes at offsets 2 to 4, which belong to pixels 0 and 1
  (the 32-bit product is 2). For index 10, one past the last pixel, it succeeds and
  stores at offsets 30 to 32, past the end of the buffer.
\<close>

theorem C10_set_pixel_out_of_range:
  "unat (buffer_bytes (sample_strip LED_PIXEL_FORMAT_RGB 10)) = 30
   \<and> unat (0x55555556 :: u32) * unat (bytes_per_pixel (sample_strip LED_PIXEL_FORMAT_RGB 10)) = 4294967298
   \<and> fst (led_strip_rmt_set_pixel (sample_strip LED_PIXEL_FORMAT_RGB 10) 0x55555556 1 2 3 blank_state) = ESP_OK
   \<and> read_bytes (mem blank_state) (buffer_addr (sample_strip LED_PIXEL_FORMAT_RGB 10) 2) 3 = [0, 0, 0]
   \<and> read_bytes
       (mem (snd (led_strip_rmt_set_pixel (sample_strip LED_PIXEL_FORMAT_RGB 10) 0x55555556 1 2 3 blank_state)))
       (buffer_addr (sample_strip LED_PIXEL_FORMAT_RGB 10) 2) 3 = [1, 2, 3]
   \<and> fst (led_strip_rmt_set_pixel (sample_strip LED_PIXEL_FORMAT_RGB 10) 10 1 2 3 blank_state) = ESP_OK
   \<and> read_bytes (mem blank_state) (buffer_addr (sample_strip LED_PIXEL_FORMAT_RGB 10) 30) 3 = [0, 0, 0]
   \<and> read_bytes
       (mem (snd (led_strip_rmt_set_pixel (sample_strip LED_PIXEL_FORMAT_RGB 10) 10 1 2 3 blank_state)))
       (buffer_addr (sample_strip LED_PIXEL_FORMAT_RGB 10) 30) 3 = [1, 2, 3]"
  by (simp add: led_strip_rmt_set_pixel_def sample_strip_def blank_state_def buffer_bytes_def
      buffer_addr_def read_bytes_3 Let_def)

subsection \<open>Refresh\<close>

lemma unat_ucast_u8_u32: "unat (ucast (b :: u8) :: u32) = unat b"
proof -
  have "unat b < 2 ^ 8" using unsigned_less [of b] by simp
  then have "unat b < 2 ^ 32" by simp
  then show ?thesis by (simp add: unsigned_ucast_eq take_bit_nat_eq_self)
qed

lemma buffer_bytes_nat:
  "unat (strip_len strip) * unat (bytes_per_pixel strip) < 2 ^ 32 \<Longrightarrow>
   unat (buffer_bytes strip) = unat (strip_len strip) * unat (bytes_per_pixel strip)"
  by (simp add: buffer_bytes_def unat_word_ariths unat_ucast_u8_u32)

lemma length_read_bytes: "length (read_bytes m p n) = n"
  by (simp add: read_bytes_def)

lemmas refresh_defs = led_strip_rmt_refresh_def do_rmt_enable_def do_rmt_transmit_def
  do_rmt_tx_wait_all_done_def do_rmt_disable_def log_event_def new_events_def Let_def

lemma refresh_mem: "mem (snd (led_strip_rmt_refresh env strip s)) = mem s"
  by (simp add: refresh_defs split: prod.splits)

lemma refresh_trace: "trace (snd (led_strip_rmt_refresh env strip s)) = trace s @ new_events s (snd (led_strip_rmt_refresh env strip s))"
  by (simp add: refresh_defs split: prod.splits)

lemma read_bytes_const: "read_bytes (\<lambda>a. c) p n = replicate n c"
  by (simp add: read_bytes_def map_replicate_const)

text \<open>
  C2. \<open>refresh\<close> calls, in this order, enable, submit (the \<open>strip_len \<times> bytes_per_pixel\<close>
  bytes of the buffer, with loop count 0), wait (timeout -1, unbounded) and disable.
  The events it adds to the log have one of four shapes: enable alone, when enable
  fails; enable, submit, disable, when submit fails; enable, submit, wait, disable,
  when wait fails or nothing before disable does. When submit or wait fails the result
  is that call's error, whatever disable returns; otherwise it is what disable
  returns. When enable fails no disable call is made; when enable succeeds the last
  call is a disable of the channel and it is the only one, so no path on which the
  channel was enabled ends without disabling it. The byte count is the 32-bit product,
  which is \<open>strip_len \<times> bytes_per_pixel\<close> whenever that fits in 32 bits.
\<close>

theorem C2_refresh_sequence:
  "let ret = fst (led_strip_rmt_refresh env strip s);
       evs = new_events s (snd (led_strip_rmt_refresh env strip s));
       chan = rmt_chan strip;
       enable_ok = Ev_rmt_enable chan ESP_OK;
       submit = Ev_rmt_transmit chan (strip_encoder strip)
                  (read_bytes (mem s) (pixel_buf strip) (unat (buffer_bytes strip)))
                  (buffer_bytes strip) 0
   in trace (snd (led_strip_rmt_refresh env strip s)) = trace s @ evs
      \<and> ((\<exists>e. e \<noteq> ESP_OK \<and> ret = e \<and> evs = [Ev_rmt_enable chan e])
         \<or> (\<exists>e d. e \<noteq> ESP_OK \<and> ret = e \<and> evs = [enable_ok, submit e, Ev_rmt_disable chan d])
         \<or> (\<exists>e d. e \<noteq> ESP_OK \<and> ret = e \<and>
                evs = [enable_ok, submit ESP_OK, Ev_rmt_tx_wait_all_done chan (- 1) e,
                       Ev_rmt_disable chan d])
         \<or> evs = [enable_ok, submit ESP_OK, Ev_rmt_tx_wait_all_done chan (- 1) ESP_OK,
                   Ev_rmt_disable chan ret])
      \<and> (rmt_enable env (trace s) chan \<noteq> ESP_OK \<longrightarrow> filter is_rmt_disable evs = [])
      \<and> (rmt_enable env (trace s) chan = ESP_OK \<longrightarrow>
            (\<exists>d. last evs = Ev_rmt_disable chan d \<and> filter is_rmt_disable evs = [Ev_rmt_disable chan d]))
      \<and> (unat (strip_len strip) * unat (bytes_per_pixel strip) < 2 ^ 32 \<longrightarrow>
            unat (buffer_bytes strip) = unat (strip_len strip) * unat (bytes_per_pixel strip))"
  by (simp add: refresh_defs buffer_bytes_nat split: prod.splits)

theorem C2_refresh_sequence_witness:
  "rmt_enable (scripted_env [0, 0, 0x107, - 1]) (trace blank_state)
       (rmt_chan (sample_strip LED_PIXEL_FORMAT_GRB 2)) = ESP_OK
   \<and> fst (led_strip_rmt_refresh (scripted_env [0, 0, 0x107, - 1])
           (sample_strip LED_PIXEL_FORMAT_GRB 2) blank_state) = 0x107
   \<and> new_events blank_state
        (snd (led_strip_rmt_refresh (scripted_env [0, 0, 0x107, - 1])
               (sample_strip LED_PIXEL_FORMAT_GRB 2) blank_state))
       = [Ev_rmt_enable 0x3FFC1000 ESP_OK,
          Ev_rmt_transmit 0x3FFC1000 0x3FFC2000 (replicate 6 0) 6 0 ESP_OK,
          Ev_rmt_tx_wait_all_done 0x3FFC1000 (- 1) 0x107,
          Ev_rmt_disable 0x3FFC1000 (- 1)]
   \<and> rmt_enable (scripted_env [0x103]) (trace blank_state)
       (rmt_chan (sample_strip LED_PIXEL_FORMAT_GRB 2)) \<noteq> ESP_OK
   \<and> filter is_rmt_disable
        (new_events blank_state
          (snd (led_strip_rmt_refresh (scripted_env [0x103])
                 (sample_strip LED_PIXEL_FORMAT_GRB 2) blank_state))) = []"
proof -
  have ok: "rmt_enable (scripted_env [0, 0, 0x107, - 1]) (trace blank_state)
              (rmt_chan (sample_strip LED_PIXEL_FORMAT_GRB 2)) = ESP_OK"
    and bad: "rmt_enable (scripted_env [0x103]) (trace blank_state)
              (rmt_chan (sample_strip LED_PIXEL_FORMAT_GRB 2)) \<noteq> ESP_OK"
    by (simp_all add: scripted_env_def script_code_def blank_state_def ESP_OK_def)
  have run: "led_strip_rmt_refresh (scripted_env [0, 0, 0x107, - 1])
               (sample_strip LED_PIXEL_FORMAT_GRB 2) blank_state
             = (0x107, blank_state\<lparr>trace :=
                  [Ev_rmt_enable 0x3FFC1000 ESP_OK,
                   Ev_rmt_transmit 0x3FFC1000 0x3FFC2000 (replicate 6 0) 6 0 ESP_OK,
                   Ev_rmt_tx_wait_all_done 0x3FFC1000 (- 1) 0x107,
                   Ev_rmt_disable 0x3FFC1000 (- 1)]\<rparr>)"
    by (simp add: refresh_defs scripted_env_def script_code_def sample_strip_def blank_state_def
        buffer_bytes_def read_bytes_const ESP_OK_def)
  from C2_refresh_sequence [of "scripted_env [0x103]" "sample_strip LED_PIXEL_FORMAT_GRB 2" blank_state] bad
  have "filter is_rmt_disable
        (new_events blank_state
          (snd (led_strip_rmt_refresh (scripted_env [0x103])
                 (sample_strip LED_PIXEL_FORMAT_GRB 2) blank_state))) = []"
    by (simp only: Let_def simp_thms)
  moreover
  from C2_refresh_sequence [of "scripted_env [0, 0, 0x107, - 1]" "sample_strip LED_PIXEL_FORMAT_GRB 2" blank_state] ok
  have "\<exists>d. last (new_events blank_state
        (snd (led_strip_rmt_refresh (scripted_env [0, 0, 0x107, - 1])
               (sample_strip LED_PIXEL_FORMAT_GRB 2) blank_state)))
          = Ev_rmt_disable (rmt_chan (sample_strip LED_PIXEL_FORMAT_GRB 2)) d"
    by (simp only: Let_def simp_thms) blast
  moreover
  have "fst (led_strip_rmt_refresh (scripted_env [0, 0, 0x107, - 1])
           (sample_strip LED_PIXEL_FORMAT_GRB 2) blank_state) = 0x107"
    unfolding run by simp
  moreover
  have "new_events blank_state
        (snd (led_strip_rmt_refresh (scripted_env [0, 0, 0x107, - 1])
               (sample_strip LED_PIXEL_FORMAT_GRB 2) blank_state))
       = [Ev_rmt_enable 0x3FFC1000 ESP_OK,
          Ev_rmt_transmit 0x3FFC1000 0x3FFC2000 (replicate 6 0) 6 0 ESP_OK,
          Ev_rmt_tx_wait_all_done 0x3FFC1000 (- 1) 0x107,
          Ev_rmt_disable 0x3FFC1000 (- 1)]"
    unfolding run by (simp add: new_events_def blank_state_def)
  ultimately show ?thesis
    using ok bad by (simp only: simp_thms)
qed

lemma new_events_chain:
  assumes "trace s1 = trace s @ e1" and "trace s2 = trace s1 @ e2"
  shows "new_events s s2 = e1 @ e2"
  using assms by (simp add: new_events_def)

text \<open>
  C8. \<open>refresh\<close> leaves the byte store as it found it, so two refreshes in a row
  with no pixel write in between both leave it unchanged, and each one that gets past
  enable submits the same \<open>strip_len \<times> bytes_per_pixel\<close> bytes: the contents of the
  buffer before the first.
\<close>

theorem C8_refresh_reads_only:
  "let s1 = snd (led_strip_rmt_refresh env strip s);
       s2 = snd (led_strip_rmt_refresh env strip s1);
       bytes = read_bytes (mem s) (pixel_buf strip) (unat (buffer_bytes strip))
   in mem s1 = mem s \<and> mem s2 = mem s
      \<and> length bytes = unat (buffer_bytes strip)
      \<and> transmitted (new_events s s1)
          = (if rmt_enable env (trace s) (rmt_chan strip) = ESP_OK then [bytes] else [])
      \<and> transmitted (new_events s1 s2)
          = (if rmt_enable env (trace s1) (rmt_chan strip) = ESP_OK then [bytes] else [])"
proof -
  have one: "transmitted (new_events t (snd (led_strip_rmt_refresh env strip t)))
          = (if rmt_enable env (trace t) (rmt_chan strip) = ESP_OK
             then [read_bytes (mem t) (pixel_buf strip) (unat (buffer_bytes strip))] else [])" for t
    by (simp add: refresh_defs transmitted_def List.map_filter_simps split: prod.splits)
  show ?thesis
    using one [of s] one [of "snd (led_strip_rmt_refresh env strip s)"]
    by (simp add: Let_def refresh_mem length_read_bytes)
qed

theorem C8_refresh_reads_only_witness:
  "transmitted (new_events blank_state
       (snd (led_strip_rmt_refresh (scripted_env []) (sample_strip LED_PIXEL_FORMAT_GRB 2)
              (snd (led_strip_rmt_refresh (scripted_env []) (sample_strip LED_PIXEL_FORMAT_GRB 2)
                     blank_state)))))
     = [replicate 6 0, replicate 6 0]"
proof -
  let ?strip = "sample_strip LED_PIXEL_FORMAT_GRB 2"
  let ?s1 = "snd (led_strip_rmt_refresh (scripted_env []) ?strip blank_state)"
  let ?s2 = "snd (led_strip_rmt_refresh (scripted_env []) ?strip ?s1)"
  have en: "rmt_enable (scripted_env []) t (rmt_chan ?strip) = ESP_OK" for t
    by (simp add: scripted_env_def script_code_def)
  have bytes: "read_bytes (mem blank_state) (pixel_buf ?strip) (unat (buffer_bytes ?strip)) = replicate 6 0"
    by (simp add: blank_state_def read_bytes_const buffer_bytes_def sample_strip_def)
  from C8_refresh_reads_only [of "scripted_env []" ?strip blank_state]
  have "transmitted (new_events blank_state ?s1) = [replicate 6 0]"
    and "transmitted (new_events ?s1 ?s2) = [replicate 6 0]"
    by (simp_all only: Let_def en bytes if_True simp_thms)
  moreover
  have "new_events blank_state ?s2 = new_events blank_state ?s1 @ new_events ?s1 ?s2"
    by (rule new_events_chain) (rule refresh_trace)+
  ultimately show ?thesis
    by (simp add: transmitted_def List.map_filter_def)
qed

subsection \<open>Clear\<close>

lemma addr_offset_iff:
  fixes a p :: addr
  assumes "n < 2 ^ 32"
  shows "a = p + of_nat n \<longleftrightarrow> unat (a - p) = n"
proof
  assume "a = p + of_nat n"
  then have "a - p = of_nat n" by simp
  then show "unat (a - p) = n" using assms by (simp add: unat_of_nat)
next
  assume "unat (a - p) = n"
  then have "of_nat n = a - p" by (metis of_nat_unat ucast_id)
  then show "a = p + of_nat n" by simp
qed

lemma memset_apply:
  "n \<le> 2 ^ 32 \<Longrightarrow> memset m p c n a = (if unat (a - p) < n then c else m a)"
proof (induction n)
  case 0
  then show ?case by simp
next
  case (Suc n)
  then have "n < 2 ^ 32" by simp
  from addr_offset_iff [OF this, of a p] Suc show ?case
    by (auto simp add: less_Suc_eq)
qed

lemma unat_u32_less: "unat (w :: u32) < 2 ^ 32"
proof -
  have "(unsigned w :: nat) < 2 ^ LENGTH(32)" by (rule unsigned_less)
  then show ?thesis by simp
qed

lemma memset_u32_apply:
  "memset m p c (unat (n :: u32)) a = (if unat (a - p) < unat n then c else m a)"
  using unat_u32_less [of n] by (simp add: memset_apply)

lemma read_bytes_memset_u32:
  "read_bytes (memset m p c (unat (n :: u32))) p (unat n) = replicate (unat n) c"
proof -
  have "k < 2 ^ 32" if "k < unat n" for k
    using that unat_u32_less [of n] by simp
  then have "memset m p c (unat n) (p + of_nat k) = c" if "k < unat n" for k
    using that by (simp add: memset_u32_apply unat_of_nat)
  then show ?thesis
    by (simp add: read_bytes_def list_eq_iff_nth_eq)
qed

lemma refresh_enable_once:
  "length (filter is_rmt_enable (new_events s (snd (led_strip_rmt_refresh env strip s)))) = 1"
  by (simp add: refresh_defs split: prod.splits)

text \<open>
  C5. \<open>clear\<close> zeroes the \<open>strip_len \<times> bytes_per_pixel\<close> bytes of the buffer (the
  32-bit product, as everywhere in the file) and then is one call of \<open>refresh\<close> on the
  zeroed buffer: its result is that refresh's result, the log gains the events of one
  refresh (one enable call), and what is submitted, if enable succeeds, is the all-zero
  frame. Every byte of the buffer is 0 afterwards and no byte outside it is changed.
\<close>

theorem C5_clear_zeroes_and_refreshes:
  "let zeroed = s\<lparr>mem := memset (mem s) (pixel_buf strip) 0 (unat (buffer_bytes strip))\<rparr>;
       s' = snd (led_strip_rmt_clear env strip s);
       evs = new_events s s'
   in led_strip_rmt_clear env strip s = led_strip_rmt_refresh env strip zeroed
      \<and> (\<forall>k < unat (buffer_bytes strip). mem s' (buffer_addr strip k) = 0)
      \<and> (\<forall>a. unat (buffer_bytes strip) \<le> unat (a - pixel_buf strip) \<longrightarrow> mem s' a = mem s a)
      \<and> length (filter is_rmt_enable evs) = 1
      \<and> transmitted evs
          = (if rmt_enable env (trace s) (rmt_chan strip) = ESP_OK
             then [replicate (unat (buffer_bytes strip)) 0] else [])
      \<and> (unat (strip_len strip) * unat (bytes_per_pixel strip) < 2 ^ 32 \<longrightarrow>
            unat (buffer_bytes strip) = unat (strip_len strip) * unat (bytes_per_pixel strip))"
proof -
  define zeroed where "zeroed = s\<lparr>mem := memset (mem s) (pixel_buf strip) 0 (unat (buffer_bytes strip))\<rparr>"
  have clear: "led_strip_rmt_clear env strip s = led_strip_rmt_refresh env strip zeroed"
    by (simp add: led_strip_rmt_clear_def zeroed_def)
  have tr: "trace zeroed = trace s"
    by (simp add: zeroed_def)
  then have ev: "new_events s t = new_events zeroed t" for t
    by (simp add: new_events_def)
  have m: "mem (snd (led_strip_rmt_clear env strip s)) = memset (mem s) (pixel_buf strip) 0 (unat (buffer_bytes strip))"
    by (simp add: clear refresh_mem) (simp add: zeroed_def)
  have inside: "\<forall>k < unat (buffer_bytes strip). mem (snd (led_strip_rmt_clear env strip s)) (buffer_addr strip k) = 0"
    using unat_u32_less [of "buffer_bytes strip"]
    by (simp add: m memset_u32_apply buffer_addr_def unat_of_nat)
  have outside: "\<forall>a. unat (buffer_bytes strip) \<le> unat (a - pixel_buf strip) \<longrightarrow>
      mem (snd (led_strip_rmt_clear env strip s)) a = mem s a"
    by (simp add: m memset_u32_apply)
  have once: "length (filter is_rmt_enable (new_events s (snd (led_strip_rmt_clear env strip s)))) = 1"
    by (simp add: clear ev refresh_enable_once)
  have "transmitted (new_events zeroed (snd (led_strip_rmt_refresh env strip zeroed)))
          = (if rmt_enable env (trace zeroed) (rmt_chan strip) = ESP_OK
             then [read_bytes (mem zeroed) (pixel_buf strip) (unat (buffer_bytes strip))] else [])"
    by (simp add: refresh_defs transmitted_def List.map_filter_simps split: prod.splits)
  then have sent: "transmitted (new_events s (snd (led_strip_rmt_clear env strip s)))
          = (if rmt_enable env (trace s) (rmt_chan strip) = ESP_OK
             then [replicate (unat (buffer_bytes strip)) 0] else [])"
    by (simp add: clear ev tr) (simp add: zeroed_def read_bytes_memset_u32)
  show ?thesis
    unfolding Let_def zeroed_def [symmetric]
    using clear inside outside once sent buffer_bytes_nat [of strip] by blast
qed

theorem C5_clear_zeroes_and_refreshes_witness:
  "(3 :: nat) < unat (buffer_bytes (sample_strip LED_PIXEL_FORMAT_GRB 2))
   \<and> mem (snd (led_strip_rmt_clear (scripted_env []) (sample_strip LED_PIXEL_FORMAT_GRB 2)
               (blank_state\<lparr>mem := \<lambda>a. 0xAA\<rparr>)))
         (buffer_addr (sample_strip LED_PIXEL_FORMAT_GRB 2) 3) = 0
   \<and> unat (buffer_bytes (sample_strip LED_PIXEL_FORMAT_GRB 2))
         \<le> unat (buffer_addr (sample_strip LED_PIXEL_FORMAT_GRB 2) 6
                   - pixel_buf (sample_strip LED_PIXEL_FORMAT_GRB 2))
   \<and> mem (snd (led_strip_rmt_clear (scripted_env []) (sample_strip LED_PIXEL_FORMAT_GRB 2)
               (blank_state\<lparr>mem := \<lambda>a. 0xAA\<rparr>)))
         (buffer_addr (sample_strip LED_PIXEL_FORMAT_GRB 2) 6) = 0xAA
   \<and> transmitted (new_events (blank_state\<lparr>mem := \<lambda>a. 0xAA\<rparr>)
        (snd (led_strip_rmt_clear (scripted_env []) (sample_strip LED_PIXEL_FORMAT_GRB 2)
               (blank_state\<lparr>mem := \<lambda>a. 0xAA\<rparr>))))
       = [replicate 6 0]"
proof -
  let ?strip = "sample_strip LED_PIXEL_FORMAT_GRB 2"
  let ?s = "blank_state\<lparr>mem := \<lambda>a. 0xAA\<rparr>"
  have n: "unat (buffer_bytes ?strip) = 6"
    by (simp add: buffer_bytes_def sample_strip_def)
  have far: "unat (buffer_addr ?strip 6 - pixel_buf ?strip) = 6"
    by (simp add: buffer_addr_def)
  have en: "rmt_enable (scripted_env []) (trace ?s) (rmt_chan ?strip) = ESP_OK"
    by (simp add: scripted_env_def script_code_def)
  note c5 = C5_clear_zeroes_and_refreshes [where env = "scripted_env []" and strip = ?strip and s = ?s, unfolded Let_def]
  from c5 have inside: "\<forall>k < unat (buffer_bytes ?strip).
      mem (snd (led_strip_rmt_clear (scripted_env []) ?strip ?s)) (buffer_addr ?strip k) = 0"
    by (rule conjunct2 [THEN conjunct1])
  from c5 have outside: "\<forall>a. unat (buffer_bytes ?strip) \<le> unat (a - pixel_buf ?strip) \<longrightarrow>
      mem (snd (led_strip_rmt_clear (scripted_env []) ?strip ?s)) a = mem ?s a"
    by (rule conjunct2 [THEN conjunct2, THEN conjunct1])
  from c5 have sent: "transmitted (new_events ?s (snd (led_strip_rmt_clear (scripted_env []) ?strip ?s)))
      = (if rmt_enable (scripted_env []) (trace ?s) (rmt_chan ?strip) = ESP_OK
         then [replicate (unat (buffer_bytes ?strip)) 0] else [])"
    by (rule conjunct2 [THEN conjunct2, THEN conjunct2, THEN conjunct2, THEN conjunct1])
  have "mem (snd (led_strip_rmt_clear (scripted_env []) ?strip ?s)) (buffer_addr ?strip 3) = 0"
    using inside [rule_format, of 3] by (simp add: n)
  moreover
  have "mem (snd (led_strip_rmt_clear (scripted_env []) ?strip ?s)) (buffer_addr ?strip 6) = 0xAA"
    using outside [rule_format, of "buffer_addr ?strip 6"] by (simp add: n far)
  moreover
  have "transmitted (new_events ?s (snd (led_strip_rmt_clear (scripted_env []) ?strip ?s)))
      = [replicate 6 0]"
    using sent by (simp only: en n simp_thms if_True)
  ultimately show ?thesis
    by (simp only: n far) simp
qed

subsection \<open>Destroy\<close>

lemmas del_defs = led_strip_rmt_del_def do_rmt_del_channel_def do_rmt_del_encoder_def
  do_free_def log_event_def new_events_def Let_def

text \<open>
  C9. \<open>destroy\<close> releases the channel, then the encoder, and frees the object only
  when both releases succeeded. If the channel release fails it returns that error
  having called nothing else; if the encoder release fails it returns that error; in
  both cases no \<open>free\<close> is called, so the object and its buffer stay allocated. A
  \<open>free\<close> is in the log exactly when the result is \<open>ESP_OK\<close>, and it frees the object.
\<close>

theorem C9_del_frees_only_on_success:
  "let ret = fst (led_strip_rmt_del env strip s);
       evs = new_events s (snd (led_strip_rmt_del env strip s));
       del_channel = Ev_rmt_del_channel (rmt_chan strip);
       del_encoder = Ev_rmt_del_encoder (strip_encoder strip)
   in mem (snd (led_strip_rmt_del env strip s)) = mem s
      \<and> trace (snd (led_strip_rmt_del env strip s)) = trace s @ evs
      \<and> ((\<exists>e. e \<noteq> ESP_OK \<and> ret = e \<and> evs = [del_channel e])
         \<or> (\<exists>e. e \<noteq> ESP_OK \<and> ret = e \<and> evs = [del_channel ESP_OK, del_encoder e])
         \<or> (ret = ESP_OK \<and> evs = [del_channel ESP_OK, del_encoder ESP_OK, Ev_free (obj_addr strip)]))
      \<and> (Ev_free (obj_addr strip) \<in> set evs \<longleftrightarrow> ret = ESP_OK)
      \<and> (\<forall>p. Ev_free p \<in> set evs \<longrightarrow> p = obj_addr strip \<and> ret = ESP_OK)"
  by (simp add: del_defs split: prod.splits)


theorem C9_del_frees_only_on_success_witness:
  "fst (led_strip_rmt_del (scripted_env [0, 0x103]) (sample_strip LED_PIXEL_FORMAT_GRB 2) blank_state)
     = 0x103
   \<and> Ev_free (obj_addr (sample_strip LED_PIXEL_FORMAT_GRB 2))
       \<notin> set (new_events blank_state
               (snd (led_strip_rmt_del (scripted_env [0, 0x103])
                      (sample_strip LED_PIXEL_FORMAT_GRB 2) blank_state)))
   \<and> fst (led_strip_rmt_del (scripted_env []) (sample_strip LED_PIXEL_FORMAT_GRB 2) blank_state)
     = ESP_OK
   \<and> Ev_free (obj_addr (sample_strip LED_PIXEL_FORMAT_GRB 2))
       \<in> set (new_events blank_state
               (snd (led_strip_rmt_del (scripted_env [])
                      (sample_strip LED_PIXEL_FORMAT_GRB 2) blank_state)))"
proof -
  let ?strip = "sample_strip LED_PIXEL_FORMAT_GRB 2"
  have bad: "fst (led_strip_rmt_del (scripted_env [0, 0x103]) ?strip blank_state) = 0x103"
    and good: "fst (led_strip_rmt_del (scripted_env []) ?strip blank_state) = ESP_OK"
    by (simp_all add: del_defs scripted_env_def script_code_def blank_state_def ESP_OK_def)
  have ne: "(0x103 :: esp_err_t) \<noteq> ESP_OK"
    by (simp add: ESP_OK_def)
  from C9_del_frees_only_on_success [of "scripted_env [0, 0x103]" ?strip blank_state, unfolded Let_def]
  have "Ev_free (obj_addr ?strip)
          \<in> set (new_events blank_state (snd (led_strip_rmt_del (scripted_env [0, 0x103]) ?strip blank_state)))
        \<longleftrightarrow> fst (led_strip_rmt_del (scripted_env [0, 0x103]) ?strip blank_state) = ESP_OK"
    by (rule conjunct2 [THEN conjunct2, THEN conjunct2, THEN conjunct1])
  then have no_free: "Ev_free (obj_addr ?strip)
          \<notin> set (new_events blank_state (snd (led_strip_rmt_del (scripted_env [0, 0x103]) ?strip blank_state)))"
    by (simp only: bad ne simp_thms)
  from C9_del_frees_only_on_success [of "scripted_env []" ?strip blank_state, unfolded Let_def]
  have "Ev_free (obj_addr ?strip)
          \<in> set (new_events blank_state (snd (led_strip_rmt_del (scripted_env []) ?strip blank_state)))
        \<longleftrightarrow> fst (led_strip_rmt_del (scripted_env []) ?strip blank_state) = ESP_OK"
    by (rule conjunct2 [THEN conjunct2, THEN conjunct2, THEN conjunct1])
  then have freed: "Ev_free (obj_addr ?strip)
          \<in> set (new_events blank_state (snd (led_strip_rmt_del (scripted_env []) ?strip blank_state)))"
    by (simp only: good simp_thms)
  from bad no_free good freed show ?thesis
    by (simp only: simp_thms)
qed

subsection \<open>Create\<close>






















end
